theory Spec2Isabelle
  imports Main
begin

section \<open>Entity model (app/models/graph.py)\<close>

text \<open>
  Property values are arbitrary JSON (\<^verbatim>\<open>Dict[str, Any]\<close>); a property map is kept as
  the list of its entries.
\<close>

datatype json =
    JNull
  | JBool bool
  | JNum int
  | JStr string
  | JArr "json list"
  | JObj "(string \<times> json) list"

type_synonym props = "(string \<times> json) list"

text \<open>
  A pydantic model remembers which fields the request set (\<^verbatim>\<open>__fields_set__\<close>);
  \<^verbatim>\<open>dict(exclude_unset=True)\<close> reads it. \<open>Unset\<close> is a field the request left out,
  \<open>Given v\<close> one it carried. \<^verbatim>\<open>label\<close>, \<^verbatim>\<open>type\<close>, \<^verbatim>\<open>from_node\<close> and
  \<^verbatim>\<open>to_node\<close> have no default, so a parsed model always carries them.
\<close>

datatype 'a field = Unset | Given 'a

record Node =
  Node_id :: "string option field"
  Node_label :: string
  Node_type :: string
  Node_properties :: "props field"

record Edge =
  Edge_id :: "string option field"
  Edge_from_node :: string
  Edge_to_node :: string
  Edge_label :: string
  Edge_properties :: "props field"

text \<open>The value a model's attribute has: an unset field reads as its default.\<close>

definition properties_value :: "props field \<Rightarrow> props" where
  "properties_value f = (case f of Unset \<Rightarrow> [] | Given p \<Rightarrow> p)"

section \<open>Python dictionaries of the route functions\<close>

text \<open>
  \<^verbatim>\<open>node.dict(exclude_unset=True)\<close>: the keys \<^verbatim>\<open>label\<close> and \<^verbatim>\<open>type\<close> are always
  there; \<^verbatim>\<open>id\<close> and \<^verbatim>\<open>properties\<close> only when set. For these two the outer
  \<open>None\<close> says that the dictionary has no such key; the value under \<^verbatim>\<open>id\<close> may itself
  be Python's \<^verbatim>\<open>None\<close>.
\<close>

record node_dict =
  nd_id :: "string option option"
  nd_label :: string
  nd_type :: string
  nd_properties :: "props option"

record edge_dict =
  ed_id :: "string option option"
  ed_from :: string
  ed_to :: string
  ed_label :: string
  ed_properties :: "props option"

definition node_dict_exclude_unset :: "Node \<Rightarrow> node_dict" where
  "node_dict_exclude_unset node =
     \<lparr>nd_id = (case Node_id node of Unset \<Rightarrow> None | Given v \<Rightarrow> Some v),
      nd_label = Node_label node,
      nd_type = Node_type node,
      nd_properties = (case Node_properties node of Unset \<Rightarrow> None | Given p \<Rightarrow> Some p)\<rparr>"

definition edge_dict_exclude_unset :: "Edge \<Rightarrow> edge_dict" where
  "edge_dict_exclude_unset edge =
     \<lparr>ed_id = (case Edge_id edge of Unset \<Rightarrow> None | Given v \<Rightarrow> Some v),
      ed_from = Edge_from_node edge,
      ed_to = Edge_to_node edge,
      ed_label = Edge_label edge,
      ed_properties = (case Edge_properties edge of Unset \<Rightarrow> None | Given p \<Rightarrow> Some p)\<rparr>"

text \<open>
  What the read routes build: \<^verbatim>\<open>{"id": ..., "label": ..., "type": ..., "properties": ...}\<close>.
  Every key is present; \<open>None\<close> is Python's \<^verbatim>\<open>None\<close> (JSON \<^verbatim>\<open>null\<close>).
\<close>

record node_json =
  r_id :: "string option"
  r_label :: "string option"
  r_type :: "string option"
  r_properties :: "props option"

record edge_json =
  re_id :: string
  re_from_node :: string
  re_to_node :: string
  re_label :: "string option"
  re_properties :: "props option"

record graph_json =
  g_nodes :: "node_json list"
  g_edges :: "edge_json list"

section \<open>The store (app/db/database.py: collections \<^verbatim>\<open>nodes\<close>, \<^verbatim>\<open>edges\<close>)\<close>

text \<open>
  A stored document has its \<^verbatim>\<open>_key\<close> and the attributes that were inserted; \<open>None\<close>
  is an attribute the document does not have. The routes never send \<^verbatim>\<open>_key\<close>, so the
  store generates it: the traditional key generator renders a counter in decimal.
  The store is taken to be reachable.
\<close>

record node_doc =
  n_key :: string
  n_id :: "string option option"
  n_label :: "string option"
  n_type :: "string option"
  n_properties :: "props option"

record edge_doc =
  e_key :: string
  e_id :: "string option option"
  e_from :: string
  e_to :: string
  e_label :: "string option"
  e_properties :: "props option"

record store =
  nodes :: "node_doc list"
  edges :: "edge_doc list"
  tick :: nat

datatype db_error = UniqueConstraintViolated | InvalidEdgeAttribute

definition digit :: "nat \<Rightarrow> char" where
  "digit d = char_of (48 + d)"

fun key_of :: "nat \<Rightarrow> string" where
  "key_of n = (if n < 10 then [digit n] else key_of (n div 10) @ [digit (n mod 10)])"

declare key_of.simps [simp del]

text \<open>
  A document handle is \<^verbatim>\<open>collection/key\<close>: one slash, with a name before it and a key
  after it. The document API of an edge collection checks \<^verbatim>\<open>_from\<close> and \<^verbatim>\<open>_to\<close> for
  this form only; it does not look the documents up.
\<close>

definition valid_handle :: "string \<Rightarrow> bool" where
  "valid_handle h =
     (let c = takeWhile (\<lambda>x. x \<noteq> CHR ''/'') h; k = drop (Suc (length c)) h
      in c \<noteq> [] \<and> length c < length h \<and> k \<noteq> [] \<and> CHR ''/'' \<notin> set k)"

definition insert_node :: "store \<Rightarrow> node_dict \<Rightarrow> db_error + (string \<times> store)" where
  "insert_node db d =
     (let key = key_of (tick db) in
      if key \<in> set (map n_key (nodes db)) then Inl UniqueConstraintViolated
      else Inr (key,
        db\<lparr>nodes := nodes db @
              [\<lparr>n_key = key, n_id = nd_id d, n_label = Some (nd_label d),
                n_type = Some (nd_type d), n_properties = nd_properties d\<rparr>],
           tick := Suc (tick db)\<rparr>))"

definition insert_edge :: "store \<Rightarrow> edge_dict \<Rightarrow> db_error + (string \<times> store)" where
  "insert_edge db d =
     (let key = key_of (tick db) in
      if \<not> valid_handle (ed_from d) \<or> \<not> valid_handle (ed_to d) then Inl InvalidEdgeAttribute
      else if key \<in> set (map e_key (edges db)) then Inl UniqueConstraintViolated
      else Inr (key,
        db\<lparr>edges := edges db @
              [\<lparr>e_key = key, e_id = ed_id d, e_from = ed_from d, e_to = ed_to d,
                e_label = Some (ed_label d), e_properties = ed_properties d\<rparr>],
           tick := Suc (tick db)\<rparr>))"

text \<open>\<^verbatim>\<open>collection.get(key)\<close> and \<^verbatim>\<open>collection.has(key)\<close>.\<close>

definition collection_get :: "node_doc list \<Rightarrow> string \<Rightarrow> node_doc option" where
  "collection_get ds key = find (\<lambda>d. n_key d = key) ds"

definition collection_has :: "node_doc list \<Rightarrow> string \<Rightarrow> bool" where
  "collection_has ds key = (collection_get ds key \<noteq> None)"

section \<open>Errors and request parameters\<close>

text \<open>
  \<open>HTTPException c\<close> is what a route raises itself; \<open>RequestValidationError\<close> is what
  the framework raises for a query parameter outside its declared bounds, before the
  route body runs; \<open>ResponseValidationError\<close> is what it raises when the value a route
  returned does not fit the route's \<^verbatim>\<open>response_model\<close>, after the route body has
  returned and so outside its \<^verbatim>\<open>try\<close>: the client gets status 500.
\<close>

datatype error = HTTPException nat | RequestValidationError | ResponseValidationError

fun status_code :: "error \<Rightarrow> nat" where
  "status_code (HTTPException c) = c"
| "status_code RequestValidationError = 422"
| "status_code ResponseValidationError = 500"

text \<open>\<^verbatim>\<open>Query(default, gt=lo, le=hi)\<close>: an absent parameter takes the default.\<close>

definition Query :: "int \<Rightarrow> int \<Rightarrow> int \<Rightarrow> int option \<Rightarrow> error + int" where
  "Query dflt lo hi v =
     (case v of
        None \<Rightarrow> Inr dflt
      | Some x \<Rightarrow> if lo < x \<and> x \<le> hi then Inr x else Inl RequestValidationError)"

text \<open>\<^verbatim>\<open>doc.get(key, default)\<close> on a stored document.\<close>

definition get_default :: "'a option \<Rightarrow> 'a \<Rightarrow> 'a" where
  "get_default v d = (case v of None \<Rightarrow> d | Some x \<Rightarrow> x)"

definition format_node_doc :: "node_doc \<Rightarrow> node_json" where
  "format_node_doc doc =
     \<lparr>r_id = Some (n_key doc),
      r_label = Some (get_default (n_label doc) ''''),
      r_type = Some (get_default (n_type doc) ''''),
      r_properties = Some (get_default (n_properties doc) [])\<rparr>"

definition format_edge_doc :: "edge_doc \<Rightarrow> edge_json" where
  "format_edge_doc doc =
     \<lparr>re_id = e_key doc,
      re_from_node = e_from doc,
      re_to_node = e_to doc,
      re_label = Some (get_default (e_label doc) ''''),
      re_properties = Some (get_default (e_properties doc) [])\<rparr>"

section \<open>Routes: create and read (app/api/routes/graphs.py)\<close>

definition create_node :: "store \<Rightarrow> Node \<Rightarrow> (error + node_dict) \<times> store" where
  "create_node db node =
     (let node_dict = node_dict_exclude_unset node;
          node_dict = (if nd_id node_dict = Some None then node_dict\<lparr>nd_id := None\<rparr>
                       else node_dict)
      in case insert_node db node_dict of
           Inl e \<Rightarrow> (Inl (HTTPException 500), db)
         | Inr (key, db') \<Rightarrow> (Inr (node_dict\<lparr>nd_id := Some (Some key)\<rparr>), db'))"

definition get_nodes :: "store \<Rightarrow> string option \<Rightarrow> int option \<Rightarrow> error + node_json list" where
  "get_nodes db type limit =
     (case Query 100 0 1000 limit of
        Inl e \<Rightarrow> Inl e
      | Inr limit \<Rightarrow>
          (let cursor =
                 (if type \<noteq> None \<and> type \<noteq> Some ''''
                  then take (nat limit) (filter (\<lambda>n. n_type n = type) (nodes db))
                  else take (nat limit) (nodes db))
           in Inr (map format_node_doc cursor)))"

definition get_node :: "store \<Rightarrow> string \<Rightarrow> error + node_json" where
  "get_node db node_id =
     (case collection_get (nodes db) node_id of
        None \<Rightarrow> Inl (HTTPException 404)
      | Some doc \<Rightarrow> Inr (format_node_doc doc))"

definition create_edge :: "store \<Rightarrow> Edge \<Rightarrow> (error + edge_json) \<times> store" where
  "create_edge db edge =
     (let edge_dict = edge_dict_exclude_unset edge;
          edge_dict = (if ed_id edge_dict = Some None then edge_dict\<lparr>ed_id := None\<rparr>
                       else edge_dict)
      in case insert_edge db edge_dict of
           Inl e \<Rightarrow> (Inl (HTTPException 500), db)
         | Inr (key, db') \<Rightarrow>
             (Inr \<lparr>re_id = key,
                   re_from_node = ed_from edge_dict,
                   re_to_node = ed_to edge_dict,
                   re_label = Some (ed_label edge_dict),
                   re_properties = Some (get_default (ed_properties edge_dict) [])\<rparr>, db'))"

definition get_edges :: "store \<Rightarrow> int option \<Rightarrow> error + edge_json list" where
  "get_edges db limit =
     (case Query 100 0 1000 limit of
        Inl e \<Rightarrow> Inl e
      | Inr limit \<Rightarrow> Inr (map format_edge_doc (take (nat limit) (edges db))))"

definition get_graph :: "store \<Rightarrow> int option \<Rightarrow> error + graph_json" where
  "get_graph db limit =
     (case Query 100 0 1000 limit of
        Inl e \<Rightarrow> Inl e
      | Inr limit \<Rightarrow>
          Inr \<lparr>g_nodes = map format_node_doc (take (nat limit) (nodes db)),
               g_edges = map format_edge_doc (take (nat limit) (edges db))\<rparr>)"

section \<open>Neighbourhood expansion (the AQL query of \<^verbatim>\<open>get_node_neighbors\<close>)\<close>

text \<open>
  \<^verbatim>\<open>DOCUMENT(id)\<close>, and the vertex a traversal step loads: the document of the
  \<^verbatim>\<open>nodes\<close> collection that the handle names, \<^verbatim>\<open>null\<close> when there is none.
\<close>

definition document :: "store \<Rightarrow> string \<Rightarrow> node_doc option" where
  "document db handle =
     (if take 6 handle = ''nodes/'' then collection_get (nodes db) (drop 6 handle) else None)"

text \<open>
  \<^verbatim>\<open>FOR v, e IN 1..@depth ANY @node_id GRAPH 'webgraph'\<close> with the default options
  (depth first, \<^verbatim>\<open>uniqueVertices: "none"\<close>, \<^verbatim>\<open>uniqueEdges: "path"\<close>): every path of
  1 to \<open>depth\<close> edges from the start vertex that uses no edge twice, each edge followed
  from either end, yields its last vertex and last edge. \<open>used\<close> holds the keys of the
  edges of the path so far.
\<close>

definition any_edges :: "edge_doc list \<Rightarrow> string \<Rightarrow> string list \<Rightarrow> (string \<times> edge_doc) list" where
  "any_edges es v used =
     concat (map (\<lambda>e. if e_key e \<in> set used then []
                       else (if e_from e = v then [(e_to e, e)] else []) @
                            (if e_to e = v then [(e_from e, e)] else [])) es)"

fun traversal :: "edge_doc list \<Rightarrow> nat \<Rightarrow> string \<Rightarrow> string list \<Rightarrow> (string \<times> edge_doc) list" where
  "traversal es 0 v used = []"
| "traversal es (Suc d) v used =
     concat (map (\<lambda>p. p # traversal es d (fst p) (e_key (snd p) # used)) (any_edges es v used))"

text \<open>\<^verbatim>\<open>RETURN DISTINCT\<close>: the first occurrence of each value, in order.\<close>

fun return_distinct :: "'a list \<Rightarrow> 'a list" where
  "return_distinct [] = []"
| "return_distinct (x # xs) = x # return_distinct (filter (\<lambda>y. y \<noteq> x) xs)"

text \<open>
  The objects the query builds. Reading an attribute that a document lacks, or any
  attribute of \<^verbatim>\<open>null\<close>, gives \<^verbatim>\<open>null\<close>: every key of the object is present and
  \<open>None\<close> is \<^verbatim>\<open>null\<close>.
\<close>

record aql_node =
  a_key :: "string option"
  a_label :: "string option"
  a_type :: "string option"
  a_properties :: "props option"

record aql_edge =
  ae_key :: string
  ae_from :: string
  ae_to :: string
  ae_label :: "string option"
  ae_properties :: "props option"

definition project_node :: "node_doc option \<Rightarrow> aql_node" where
  "project_node v =
     (case v of
        None \<Rightarrow> \<lparr>a_key = None, a_label = None, a_type = None, a_properties = None\<rparr>
      | Some d \<Rightarrow> \<lparr>a_key = Some (n_key d), a_label = n_label d, a_type = n_type d,
                  a_properties = n_properties d\<rparr>)"

definition project_edge :: "edge_doc \<Rightarrow> aql_edge" where
  "project_edge e =
     \<lparr>ae_key = e_key e, ae_from = e_from e, ae_to = e_to e, ae_label = e_label e,
      ae_properties = e_properties e\<rparr>"

text \<open>
  The query: \<^verbatim>\<open>APPEND\<close> is called without its \<^verbatim>\<open>unique\<close> flag, so it concatenates.
  A traversal of at least one step always has an edge, so \<^verbatim>\<open>FILTER n.edge != null\<close>
  keeps every row.
\<close>

definition neighbors_query :: "store \<Rightarrow> string \<Rightarrow> nat \<Rightarrow> aql_node list \<times> aql_edge list" where
  "neighbors_query db node_id depth =
     (let start_node = document db node_id;
          neighbors = traversal (edges db) depth node_id [];
          nodes = [project_node start_node] @
                  return_distinct (map (\<lambda>n. project_node (document db (fst n))) neighbors);
          edges = return_distinct (map (\<lambda>n. project_edge (snd n)) neighbors)
      in (nodes, edges))"

text \<open>
  Formatting the query's result: \<^verbatim>\<open>node.get("label", "")\<close> finds its key in every
  object the query returns, so it returns the value there, \<^verbatim>\<open>None\<close> included.
\<close>

definition format_aql_node :: "aql_node \<Rightarrow> node_json" where
  "format_aql_node node =
     \<lparr>r_id = a_key node, r_label = a_label node, r_type = a_type node,
      r_properties = a_properties node\<rparr>"

definition format_aql_edge :: "aql_edge \<Rightarrow> edge_json" where
  "format_aql_edge edge =
     \<lparr>re_id = ae_key edge, re_from_node = ae_from edge, re_to_node = ae_to edge,
      re_label = ae_label edge, re_properties = ae_properties edge\<rparr>"

text \<open>
  \<^verbatim>\<open>response_model=Graph\<close>: each entry of \<^verbatim>\<open>nodes\<close> must fit \<^verbatim>\<open>Node\<close> and each
  entry of \<^verbatim>\<open>edges\<close> must fit \<^verbatim>\<open>Edge\<close>. \<^verbatim>\<open>id\<close> is \<^verbatim>\<open>Optional[str]\<close> and may be
  \<^verbatim>\<open>None\<close>; \<^verbatim>\<open>label\<close> and \<^verbatim>\<open>type\<close> are \<^verbatim>\<open>str\<close> and \<^verbatim>\<open>properties\<close> is a
  \<^verbatim>\<open>Dict\<close>, so \<^verbatim>\<open>None\<close> does not fit them. A value that fits is sent as it is.
\<close>

definition fits_Node :: "node_json \<Rightarrow> bool" where
  "fits_Node n = (r_label n \<noteq> None \<and> r_type n \<noteq> None \<and> r_properties n \<noteq> None)"

definition fits_Edge :: "edge_json \<Rightarrow> bool" where
  "fits_Edge e = (re_label e \<noteq> None \<and> re_properties e \<noteq> None)"

definition response_model_Graph :: "graph_json \<Rightarrow> error + graph_json" where
  "response_model_Graph g =
     (if list_all fits_Node (g_nodes g) \<and> list_all fits_Edge (g_edges g) then Inr g
      else Inl ResponseValidationError)"

definition get_node_neighbors :: "store \<Rightarrow> string \<Rightarrow> int option \<Rightarrow> error + graph_json" where
  "get_node_neighbors db node_id depth =
     (case Query 1 0 3 depth of
        Inl e \<Rightarrow> Inl e
      | Inr depth \<Rightarrow>
          if \<not> collection_has (nodes db) node_id then Inl (HTTPException 404)
          else
            (let full_node_id = ''nodes/'' @ node_id;
                 result = neighbors_query db full_node_id (nat depth)
             in response_model_Graph
                  \<lparr>g_nodes = map format_aql_node (fst result),
                   g_edges = map format_aql_edge (snd result)\<rparr>))"

text \<open>Documents that carry every attribute the routes read.\<close>

definition complete_node :: "node_doc \<Rightarrow> bool" where
  "complete_node d = (n_label d \<noteq> None \<and> n_type d \<noteq> None \<and> n_properties d \<noteq> None)"

definition complete_edge :: "edge_doc \<Rightarrow> bool" where
  "complete_edge e = (e_label e \<noteq> None \<and> e_properties e \<noteq> None)"

section \<open>Scenarios\<close>

text \<open>
  Stores built through the routes themselves, from the empty store: three pages A, B, C
  with A\<rightarrow>B and B\<rightarrow>C; two pages with an edge each way; one page alone; one node
  created without a \<^verbatim>\<open>properties\<close> field; the three pages and two edges again, created
  with their required fields only, and once more with only C created so; a page and a
  person. Two requests: a node that brings
  its own id, and an edge whose \<^verbatim>\<open>from_node\<close> is a bare key.
\<close>

definition empty_store :: store where
  "empty_store = \<lparr>nodes = [], edges = [], tick = 0\<rparr>"

definition page :: "string \<Rightarrow> Node" where
  "page l = \<lparr>Node_id = Unset, Node_label = l, Node_type = ''page'',
             Node_properties = Given [(''name'', JStr l)]\<rparr>"

definition links :: "string \<Rightarrow> string \<Rightarrow> Edge" where
  "links a b = \<lparr>Edge_id = Unset, Edge_from_node = ''nodes/'' @ a, Edge_to_node = ''nodes/'' @ b,
                Edge_label = ''LINKS'', Edge_properties = Given []\<rparr>"

definition then_node :: "store \<Rightarrow> Node \<Rightarrow> store" where
  "then_node db node = snd (create_node db node)"

definition then_edge :: "store \<Rightarrow> Edge \<Rightarrow> store" where
  "then_edge db edge = snd (create_edge db edge)"

definition abc_store :: store where
  "abc_store =
     then_edge (then_edge (then_node (then_node (then_node empty_store (page ''A''))
       (page ''B'')) (page ''C'')) (links ''0'' ''1'')) (links ''1'' ''2'')"

definition cycle_store :: store where
  "cycle_store =
     then_edge (then_edge (then_node (then_node empty_store (page ''A'')) (page ''B''))
       (links ''0'' ''1'')) (links ''1'' ''0'')"

definition custom_id_node :: Node where
  "custom_id_node = \<lparr>Node_id = Given (Some ''custom''), Node_label = ''A'', Node_type = ''page'',
                     Node_properties = Given [(''name'', JStr ''X'')]\<rparr>"

definition slashless_edge :: Edge where
  "slashless_edge = \<lparr>Edge_id = Unset, Edge_from_node = ''0'', Edge_to_node = ''nodes/1'',
                     Edge_label = ''LINKS'', Edge_properties = Unset\<rparr>"

definition lone_store :: store where
  "lone_store = then_node empty_store (page ''A'')"

definition plain_page :: "string \<Rightarrow> Node" where
  "plain_page l = \<lparr>Node_id = Unset, Node_label = l, Node_type = ''page'',
                   Node_properties = Unset\<rparr>"

definition plain_links :: "string \<Rightarrow> string \<Rightarrow> Edge" where
  "plain_links a b = \<lparr>Edge_id = Unset, Edge_from_node = ''nodes/'' @ a,
                      Edge_to_node = ''nodes/'' @ b, Edge_label = ''LINKS'',
                      Edge_properties = Unset\<rparr>"

definition bare_store :: store where
  "bare_store = then_node empty_store (plain_page ''A'')"

definition plain_abc_store :: store where
  "plain_abc_store =
     then_edge (then_edge (then_node (then_node (then_node empty_store (plain_page ''A''))
       (plain_page ''B'')) (plain_page ''C'')) (plain_links ''0'' ''1'')) (plain_links ''1'' ''2'')"

definition half_store :: store where
  "half_store =
     then_edge (then_edge (then_node (then_node (then_node empty_store (page ''A''))
       (page ''B'')) (plain_page ''C'')) (links ''0'' ''1'')) (links ''1'' ''2'')"

definition mixed_store :: store where
  "mixed_store =
     then_node (then_node empty_store (page ''A''))
       \<lparr>Node_id = Unset, Node_label = ''P'', Node_type = ''person'', Node_properties = Given []\<rparr>"

section \<open>Facts about the store and the parameter bounds\<close>

lemma collection_get_key: "collection_get ds k = Some d \<Longrightarrow> n_key d = k"
  unfolding collection_get_def by (induction ds) (auto split: if_splits)


lemma Query_in_range:
  "lo < x \<Longrightarrow> x \<le> hi \<Longrightarrow> Query dflt lo hi (Some x) = Inr x"
  by (simp add: Query_def)

lemma Query_out_of_range:
  "\<not> (lo < x \<and> x \<le> hi) \<Longrightarrow> Query dflt lo hi (Some x) = Inl RequestValidationError"
  by (simp add: Query_def)

section \<open>Listing\<close>

text \<open>
  C4. The three listing routes share one limit policy, rejection: a limit outside
  (0, 1000] makes \<open>get_nodes\<close>, \<open>get_edges\<close> and \<open>get_graph\<close> fail with the request
  validation error (status 422) whatever the store holds, and a limit inside the range
  returns at most that many entities. Nothing is clamped.
\<close>

theorem limit_policy_is_reject:
  "(if 0 < limit \<and> limit \<le> 1000
    then (\<exists>ns. get_nodes db type (Some limit) = Inr ns \<and> int (length ns) \<le> limit)
       \<and> (\<exists>es. get_edges db (Some limit) = Inr es \<and> int (length es) \<le> limit)
       \<and> (\<exists>g. get_graph db (Some limit) = Inr g \<and> int (length (g_nodes g)) \<le> limit
              \<and> int (length (g_edges g)) \<le> limit)
    else get_nodes db type (Some limit) = Inl RequestValidationError
       \<and> get_edges db (Some limit) = Inl RequestValidationError
       \<and> get_graph db (Some limit) = Inl RequestValidationError)
   \<and> status_code RequestValidationError = 422"
proof (cases "0 < limit \<and> limit \<le> 1000")
  case True
  then have q: "Query 100 0 1000 (Some limit) = Inr limit"
    by (simp add: Query_in_range)
  have m: "int (min n (nat limit)) \<le> limit" for n
    using True by linarith
  show ?thesis
    by (simp add: get_nodes_def get_edges_def get_graph_def q Let_def True m)
next
  case False
  then have q: "Query 100 0 1000 (Some limit) = Inl RequestValidationError"
    by (rule Query_out_of_range)
  from False show ?thesis
    by (simp add: get_nodes_def get_edges_def get_graph_def q)
qed

theorem limit_policy_is_reject_witness:
  "get_nodes abc_store None (Some 2000) = Inl RequestValidationError
   \<and> get_edges abc_store (Some 2000) = Inl RequestValidationError
   \<and> get_graph abc_store (Some 2000) = Inl RequestValidationError
   \<and> get_nodes abc_store None (Some 0) = Inl RequestValidationError
   \<and> (\<exists>ns. get_nodes abc_store None (Some 2) = Inr ns \<and> int (length ns) \<le> 2)"
  using limit_policy_is_reject [of 2000 abc_store None]
    limit_policy_is_reject [of 0 abc_store None]
    limit_policy_is_reject [of 2 abc_store None]
  by simp

section \<open>Neighbourhood expansion: a missing start node\<close>

text \<open>
  C8. When the id names no node of the store, \<open>get_node_neighbors\<close> fails with the 404
  exception for every depth in [1, 3] (and for the default depth): the check of
  \<^verbatim>\<open>has\<close> comes before the query, so no graph is returned.
\<close>

theorem expand_missing_start_not_found:
  assumes "\<not> collection_has (nodes db) node_id" and "1 \<le> depth" and "depth \<le> 3"
  shows "get_node_neighbors db node_id (Some depth) = Inl (HTTPException 404)
       \<and> get_node_neighbors db node_id None = Inl (HTTPException 404)
       \<and> status_code (HTTPException 404) = 404"
  using assms by (simp add: get_node_neighbors_def Query_def)

theorem expand_missing_start_not_found_witness:
  "\<not> collection_has (nodes abc_store) ''nonexistent''
   \<and> get_node_neighbors abc_store ''nonexistent'' (Some 1) = Inl (HTTPException 404)"
proof -
  have h: "\<not> collection_has (nodes abc_store) ''nonexistent''" by code_simp
  from expand_missing_start_not_found [OF h, of 1] h show ?thesis by simp
qed

section \<open>Creating nodes and edges\<close>





lemma collection_has_iff: "collection_has ds k \<longleftrightarrow> k \<in> set (map n_key ds)"
  unfolding collection_has_def collection_get_def by (induction ds) auto

text \<open>
  C3, as stated, fails: a request that supplies the id \<^verbatim>\<open>custom\<close> is answered with the
  store's key \<^verbatim>\<open>0\<close>, and the node is found under \<^verbatim>\<open>0\<close>, not under \<^verbatim>\<open>custom\<close>.
\<close>

theorem create_node_supplied_id_counterexample:
  "Node_id custom_id_node = Given (Some ''custom'')
   \<and> fst (create_node empty_store custom_id_node) =
       Inr \<lparr>nd_id = Some (Some ''0''), nd_label = ''A'', nd_type = ''page'',
            nd_properties = Some [(''name'', JStr ''X'')]\<rparr>
   \<and> get_node (snd (create_node empty_store custom_id_node)) ''custom'' = Inl (HTTPException 404)
   \<and> get_node (snd (create_node empty_store custom_id_node)) ''0'' =
       Inr \<lparr>r_id = Some ''0'', r_label = Some ''A'', r_type = Some ''page'',
            r_properties = Some [(''name'', JStr ''X'')]\<rparr>"
  by code_simp

text \<open>
  C3, amended. The id of a created node is always the key the store generates, with or
  without an id in the request: unless the store rejects the key as taken (then the route
  fails with status 500 and the store is unchanged), the returned dictionary carries the
  generated key as its id and the new document has that key; an id the request supplied
  is kept only as an ordinary attribute of the document.
\<close>

theorem create_node_id_is_store_key:
  "(if collection_has (nodes db) (key_of (tick db))
    then create_node db node = (Inl (HTTPException 500), db)
    else \<exists>r doc. create_node db node =
             (Inr r, db\<lparr>nodes := nodes db @ [doc], tick := Suc (tick db)\<rparr>)
           \<and> nd_id r = Some (Some (key_of (tick db)))
           \<and> n_key doc = key_of (tick db)
           \<and> n_id doc = (case Node_id node of Given (Some i) \<Rightarrow> Some (Some i) | _ \<Rightarrow> None))"
proof (cases "collection_has (nodes db) (key_of (tick db))")
  case True
  then show ?thesis
    by (simp add: collection_has_iff create_node_def insert_node_def Let_def)
next
  case False
  let ?k = "key_of (tick db)"
  let ?r = "\<lparr>nd_id = Some (Some ?k), nd_label = Node_label node, nd_type = Node_type node,
             nd_properties = (case Node_properties node of Unset \<Rightarrow> None | Given p \<Rightarrow> Some p)\<rparr>"
  let ?doc = "\<lparr>n_key = ?k,
               n_id = (case Node_id node of Given (Some i) \<Rightarrow> Some (Some i) | _ \<Rightarrow> None),
               n_label = Some (Node_label node), n_type = Some (Node_type node),
               n_properties = (case Node_properties node of Unset \<Rightarrow> None | Given p \<Rightarrow> Some p)\<rparr>"
  from False have "create_node db node =
      (Inr ?r, db\<lparr>nodes := nodes db @ [?doc], tick := Suc (tick db)\<rparr>)"
    by (auto simp: collection_has_iff create_node_def insert_node_def
        node_dict_exclude_unset_def Let_def split: field.splits option.splits)
  then have "\<exists>r doc. create_node db node =
             (Inr r, db\<lparr>nodes := nodes db @ [doc], tick := Suc (tick db)\<rparr>)
           \<and> nd_id r = Some (Some ?k) \<and> n_key doc = ?k
           \<and> n_id doc = (case Node_id node of Given (Some i) \<Rightarrow> Some (Some i) | _ \<Rightarrow> None)"
    by (intro exI [of _ ?r] exI [of _ ?doc]) simp
  with False show ?thesis by simp
qed

theorem create_node_id_is_store_key_witness:
  "\<not> collection_has (nodes empty_store) (key_of (tick empty_store))
   \<and> (\<exists>r doc. create_node empty_store custom_id_node =
          (Inr r, empty_store\<lparr>nodes := nodes empty_store @ [doc], tick := Suc (tick empty_store)\<rparr>)
        \<and> nd_id r = Some (Some (key_of (tick empty_store)))
        \<and> n_key doc = key_of (tick empty_store)
        \<and> n_id doc = Some (Some ''custom''))
   \<and> key_of (tick empty_store) = ''0''"
proof -
  have h: "\<not> collection_has (nodes empty_store) (key_of (tick empty_store))" by code_simp
  have k: "key_of (tick empty_store) = ''0''" by code_simp
  have c: "Node_id custom_id_node = Given (Some ''custom'')" by code_simp
  from create_node_id_is_store_key [of empty_store custom_id_node] h
  have "\<exists>r doc. create_node empty_store custom_id_node =
          (Inr r, empty_store\<lparr>nodes := nodes empty_store @ [doc], tick := Suc (tick empty_store)\<rparr>)
        \<and> nd_id r = Some (Some (key_of (tick empty_store)))
        \<and> n_key doc = key_of (tick empty_store)
        \<and> n_id doc = Some (Some ''custom'')"
    by (simp add: c)
  with h k show ?thesis by blast
qed

text \<open>
  C2, as stated, fails: in the empty store, where no node exists, an edge from
  \<^verbatim>\<open>nodes/7\<close> to \<^verbatim>\<open>nodes/8\<close> is stored and returned.
\<close>

theorem create_edge_dangling_counterexample:
  "\<not> collection_has (nodes empty_store) ''7''
   \<and> \<not> collection_has (nodes empty_store) ''8''
   \<and> document empty_store ''nodes/7'' = None
   \<and> document empty_store ''nodes/8'' = None
   \<and> create_edge empty_store (links ''7'' ''8'') =
       (Inr \<lparr>re_id = ''0'', re_from_node = ''nodes/7'', re_to_node = ''nodes/8'',
             re_label = Some ''LINKS'', re_properties = Some []\<rparr>,
        \<lparr>nodes = [],
         edges = [\<lparr>e_key = ''0'', e_id = None, e_from = ''nodes/7'', e_to = ''nodes/8'',
                   e_label = Some ''LINKS'', e_properties = Some []\<rparr>],
         tick = 1\<rparr>)"
  by code_simp

text \<open>
  C2, amended. \<open>create_edge\<close> never looks its endpoints up. It fails with status 500,
  leaving the store unchanged, exactly when \<^verbatim>\<open>from_node\<close> or \<^verbatim>\<open>to_node\<close> is not a
  document handle or the store rejects the generated key; otherwise the edge is stored
  with the endpoints as given and returned, whatever nodes exist.
\<close>

theorem create_edge_checks_handles_only:
  "(if valid_handle (Edge_from_node edge) \<and> valid_handle (Edge_to_node edge)
       \<and> key_of (tick db) \<notin> set (map e_key (edges db))
    then \<exists>r doc. create_edge db edge =
             (Inr r, db\<lparr>edges := edges db @ [doc], tick := Suc (tick db)\<rparr>)
           \<and> re_id r = key_of (tick db) \<and> re_from_node r = Edge_from_node edge
           \<and> re_to_node r = Edge_to_node edge
           \<and> e_key doc = key_of (tick db) \<and> e_from doc = Edge_from_node edge
           \<and> e_to doc = Edge_to_node edge
    else create_edge db edge = (Inl (HTTPException 500), db))"
proof (cases "valid_handle (Edge_from_node edge) \<and> valid_handle (Edge_to_node edge)
       \<and> key_of (tick db) \<notin> set (map e_key (edges db))")
  case False
  then show ?thesis
    by (auto simp: create_edge_def insert_edge_def edge_dict_exclude_unset_def Let_def)
next
  case True
  let ?k = "key_of (tick db)"
  let ?r = "\<lparr>re_id = ?k, re_from_node = Edge_from_node edge, re_to_node = Edge_to_node edge,
             re_label = Some (Edge_label edge),
             re_properties = Some (properties_value (Edge_properties edge))\<rparr>"
  let ?doc = "\<lparr>e_key = ?k,
               e_id = (case Edge_id edge of Given (Some i) \<Rightarrow> Some (Some i) | _ \<Rightarrow> None),
               e_from = Edge_from_node edge, e_to = Edge_to_node edge,
               e_label = Some (Edge_label edge),
               e_properties = (case Edge_properties edge of Unset \<Rightarrow> None | Given p \<Rightarrow> Some p)\<rparr>"
  from True have "create_edge db edge =
      (Inr ?r, db\<lparr>edges := edges db @ [?doc], tick := Suc (tick db)\<rparr>)"
    by (auto simp: create_edge_def insert_edge_def edge_dict_exclude_unset_def Let_def
        get_default_def properties_value_def split: field.splits option.splits)
  then have "\<exists>r doc. create_edge db edge =
             (Inr r, db\<lparr>edges := edges db @ [doc], tick := Suc (tick db)\<rparr>)
           \<and> re_id r = key_of (tick db) \<and> re_from_node r = Edge_from_node edge
           \<and> re_to_node r = Edge_to_node edge
           \<and> e_key doc = key_of (tick db) \<and> e_from doc = Edge_from_node edge
           \<and> e_to doc = Edge_to_node edge"
    by (intro exI [of _ ?r] exI [of _ ?doc]) simp
  with True show ?thesis by simp
qed

theorem create_edge_checks_handles_only_witness:
  "\<not> valid_handle (Edge_from_node slashless_edge)
   \<and> create_edge abc_store slashless_edge = (Inl (HTTPException 500), abc_store)
   \<and> valid_handle (Edge_from_node (links ''7'' ''8''))
   \<and> valid_handle (Edge_to_node (links ''7'' ''8''))
   \<and> key_of (tick empty_store) \<notin> set (map e_key (edges empty_store))
   \<and> (\<exists>r doc. create_edge empty_store (links ''7'' ''8'') =
          (Inr r, empty_store\<lparr>edges := edges empty_store @ [doc], tick := Suc (tick empty_store)\<rparr>)
        \<and> re_from_node r = ''nodes/7'' \<and> re_to_node r = ''nodes/8''
        \<and> e_from doc = ''nodes/7'' \<and> e_to doc = ''nodes/8'')"
proof -
  have a: "\<not> valid_handle (Edge_from_node slashless_edge)" by code_simp
  have b: "valid_handle (Edge_from_node (links ''7'' ''8''))"
    and c: "valid_handle (Edge_to_node (links ''7'' ''8''))"
    and d: "key_of (tick empty_store) \<notin> set (map e_key (edges empty_store))"
    by code_simp+
  have e: "Edge_from_node (links ''7'' ''8'') = ''nodes/7''"
    and f: "Edge_to_node (links ''7'' ''8'') = ''nodes/8''"
    by (simp_all add: links_def)
  from create_edge_checks_handles_only [of slashless_edge abc_store] a
  have 1: "create_edge abc_store slashless_edge = (Inl (HTTPException 500), abc_store)"
    by simp
  from create_edge_checks_handles_only [of "links ''7'' ''8''" empty_store] b c d
  have 2: "\<exists>r doc. create_edge empty_store (links ''7'' ''8'') =
          (Inr r, empty_store\<lparr>edges := edges empty_store @ [doc], tick := Suc (tick empty_store)\<rparr>)
        \<and> re_from_node r = ''nodes/7'' \<and> re_to_node r = ''nodes/8''
        \<and> e_from doc = ''nodes/7'' \<and> e_to doc = ''nodes/8''"
    unfolding e f by auto
  from a b c d 1 2 show ?thesis by blast
qed

section \<open>Listing: the type filter\<close>

text \<open>
  C10. An empty type string is no filter: for a limit \<open>l\<close> in (0, 1000], \<open>get_nodes\<close> with
  \<^verbatim>\<open>type=""\<close> and \<open>get_nodes\<close> without the parameter both return the first \<open>l\<close> nodes
  of the collection, whatever their type, formatted; without a limit both return the
  first 100; and for every limit, valid or not, the two calls give the same answer.
\<close>

theorem empty_type_filter_is_no_filter:
  assumes "0 < l" and "l \<le> 1000"
  shows "get_nodes db (Some '''') (Some l) = Inr (map format_node_doc (take (nat l) (nodes db)))
       \<and> get_nodes db None (Some l) = Inr (map format_node_doc (take (nat l) (nodes db)))
       \<and> get_nodes db (Some '''') None = Inr (map format_node_doc (take 100 (nodes db)))
       \<and> get_nodes db None None = Inr (map format_node_doc (take 100 (nodes db)))
       \<and> get_nodes db (Some '''') limit = get_nodes db None limit"
proof -
  from assms have q: "Query 100 0 1000 (Some l) = Inr l"
    by (simp add: Query_in_range)
  have d: "Query 100 0 1000 None = Inr 100"
    by (simp add: Query_def)
  have e: "get_nodes db (Some '''') limit = get_nodes db None limit"
    by (simp add: get_nodes_def split: sum.splits)
  have "get_nodes db (Some '''') (Some l) = Inr (map format_node_doc (take (nat l) (nodes db)))"
    and "get_nodes db None (Some l) = Inr (map format_node_doc (take (nat l) (nodes db)))"
    and "get_nodes db (Some '''') None = Inr (map format_node_doc (take 100 (nodes db)))"
    and "get_nodes db None None = Inr (map format_node_doc (take 100 (nodes db)))"
    by (simp_all add: get_nodes_def q d)
  with e show ?thesis by (intro conjI)
qed

theorem empty_type_filter_is_no_filter_witness:
  "map n_type (nodes mixed_store) = [Some ''page'', Some ''person'']
   \<and> get_nodes mixed_store (Some '''') (Some 2) =
       Inr [\<lparr>r_id = Some ''0'', r_label = Some ''A'', r_type = Some ''page'',
              r_properties = Some [(''name'', JStr ''A'')]\<rparr>,
            \<lparr>r_id = Some ''1'', r_label = Some ''P'', r_type = Some ''person'',
              r_properties = Some []\<rparr>]
   \<and> get_nodes mixed_store None (Some 2) =
       Inr [\<lparr>r_id = Some ''0'', r_label = Some ''A'', r_type = Some ''page'',
              r_properties = Some [(''name'', JStr ''A'')]\<rparr>,
            \<lparr>r_id = Some ''1'', r_label = Some ''P'', r_type = Some ''person'',
              r_properties = Some []\<rparr>]
   \<and> get_nodes mixed_store (Some ''person'') (Some 2) =
       Inr [\<lparr>r_id = Some ''1'', r_label = Some ''P'', r_type = Some ''person'',
              r_properties = Some []\<rparr>]"
proof -
  have t: "map n_type (nodes mixed_store) = [Some ''page'', Some ''person'']"
    by code_simp
  have n: "map format_node_doc (take (nat 2) (nodes mixed_store)) =
       [\<lparr>r_id = Some ''0'', r_label = Some ''A'', r_type = Some ''page'',
              r_properties = Some [(''name'', JStr ''A'')]\<rparr>,
            \<lparr>r_id = Some ''1'', r_label = Some ''P'', r_type = Some ''person'',
              r_properties = Some []\<rparr>]"
    by code_simp
  have p: "get_nodes mixed_store (Some ''person'') (Some 2) =
       Inr [\<lparr>r_id = Some ''1'', r_label = Some ''P'', r_type = Some ''person'',
              r_properties = Some []\<rparr>]"
    by code_simp
  from empty_type_filter_is_no_filter [of 2 mixed_store]
  have "get_nodes mixed_store (Some '''') (Some 2) =
          Inr (map format_node_doc (take (nat 2) (nodes mixed_store)))"
    and "get_nodes mixed_store None (Some 2) =
          Inr (map format_node_doc (take (nat 2) (nodes mixed_store)))"
    by simp_all
  with t p show ?thesis unfolding n by (intro conjI)
qed

section \<open>The response model on the read routes\<close>

text \<open>
  What \<open>get_node\<close>, \<open>get_nodes\<close>, \<open>get_edges\<close> and \<open>get_graph\<close> build from stored
  documents always fits the response model, since every \<^verbatim>\<open>get\<close> there takes its
  default for a missing attribute: on these routes the validation changes nothing. The
  dictionaries that \<open>create_node\<close> and \<open>create_edge\<close> return hold the request's own label
  (and type) and either its properties or no such key, so they fit as well.
\<close>

lemma format_doc_fits: "fits_Node (format_node_doc d)" "fits_Edge (format_edge_doc e)"
  by (simp_all add: fits_Node_def fits_Edge_def format_node_doc_def format_edge_doc_def)

lemma get_graph_fits:
  "get_graph db limit = Inr g \<Longrightarrow> response_model_Graph g = Inr g"
  by (auto simp: get_graph_def response_model_Graph_def list_all_iff format_doc_fits
      split: sum.splits)

section \<open>Neighbourhood expansion: traversal and result\<close>



lemma traversal_no_edges:
  "any_edges es v used = [] \<Longrightarrow> traversal es d v used = []"
  by (cases d) simp_all

lemma any_edges_isolated:
  assumes "\<forall>e\<in>set es. e_from e \<noteq> v \<and> e_to e \<noteq> v"
  shows "any_edges es v used = []"
proof -
  have "\<forall>e\<in>set es.
          (if e_key e \<in> set used then []
           else (if e_from e = v then [(e_to e, e)] else []) @
                (if e_to e = v then [(e_from e, e)] else [])) = []"
    using assms by simp
  then show ?thesis
    unfolding any_edges_def by (induction es) simp_all
qed

lemma set_return_distinct: "set (return_distinct xs) = set xs"
  by (induction xs rule: return_distinct.induct) auto

lemma distinct_return_distinct: "distinct (return_distinct xs)"
  by (induction xs rule: return_distinct.induct) (auto simp: set_return_distinct)

lemma document_start:
  "document db (''nodes/'' @ node_id) = collection_get (nodes db) node_id"
  by (simp add: document_def)

lemma neighbors_query_nodes:
  "fst (neighbors_query db h d) =
     project_node (document db h) #
     return_distinct (map (\<lambda>n. project_node (document db (fst n))) (traversal (edges db) d h []))"
  by (simp add: neighbors_query_def Let_def)

lemma neighbors_query_edges:
  "snd (neighbors_query db h d) =
     return_distinct (map (\<lambda>n. project_edge (snd n)) (traversal (edges db) d h []))"
  by (simp add: neighbors_query_def Let_def)

lemma response_model_Graph_Inr:
  "response_model_Graph x = Inr g \<longleftrightarrow>
     g = x \<and> list_all fits_Node (g_nodes x) \<and> list_all fits_Edge (g_edges x)"
  by (auto simp: response_model_Graph_def)

lemma neighbors_found:
  assumes "collection_has (nodes db) node_id" and "0 < depth" and "depth \<le> 3"
  shows "get_node_neighbors db node_id (Some depth) =
     response_model_Graph
       \<lparr>g_nodes = map format_aql_node (fst (neighbors_query db (''nodes/'' @ node_id) (nat depth))),
        g_edges = map format_aql_edge (snd (neighbors_query db (''nodes/'' @ node_id) (nat depth)))\<rparr>"
  using assms by (simp add: get_node_neighbors_def Query_in_range Let_def)

lemma neighbors_Inr:
  assumes "get_node_neighbors db node_id (Some depth) = Inr g"
  shows "collection_has (nodes db) node_id" and "0 < depth" and "depth \<le> 3"
    and "g = \<lparr>g_nodes = map format_aql_node (fst (neighbors_query db (''nodes/'' @ node_id) (nat depth))),
              g_edges = map format_aql_edge (snd (neighbors_query db (''nodes/'' @ node_id) (nat depth)))\<rparr>"
    and "list_all fits_Node (g_nodes g)" and "list_all fits_Edge (g_edges g)"
proof -
  from assms have q: "Query 1 0 3 (Some depth) = Inr depth"
    by (auto simp: get_node_neighbors_def Query_def split: if_splits)
  then show d: "0 < depth" "depth \<le> 3"
    by (auto simp: Query_def split: if_splits)
  from assms q show h: "collection_has (nodes db) node_id"
    by (auto simp: get_node_neighbors_def split: if_splits)
  from assms have r: "response_model_Graph
       \<lparr>g_nodes = map format_aql_node (fst (neighbors_query db (''nodes/'' @ node_id) (nat depth))),
        g_edges = map format_aql_edge (snd (neighbors_query db (''nodes/'' @ node_id) (nat depth)))\<rparr>
       = Inr g"
    unfolding neighbors_found [OF h d] .
  then show "g = \<lparr>g_nodes = map format_aql_node (fst (neighbors_query db (''nodes/'' @ node_id) (nat depth))),
              g_edges = map format_aql_edge (snd (neighbors_query db (''nodes/'' @ node_id) (nat depth)))\<rparr>"
    unfolding response_model_Graph_Inr by (rule conjunct1)
  from r show "list_all fits_Node (g_nodes g)" and "list_all fits_Edge (g_edges g)"
    unfolding response_model_Graph_Inr by simp_all
qed



text \<open>
  The converse direction has no such guarantee. With A and B created with properties and
  C without, the expansion of A to depth 1 returns A and B, and to depth 2, where C is
  reached, it returns no graph.
\<close>

lemma expand_deeper_may_fail:
  "map_sum id (\<lambda>g. map r_id (g_nodes g)) (get_node_neighbors half_store ''0'' (Some 1)) =
     Inr [Some ''0'', Some ''1'']
   \<and> get_node_neighbors half_store ''0'' (Some 2) = Inl ResponseValidationError"
  by code_simp

section \<open>Neighbourhood expansion: the start node in the result\<close>

lemma format_complete_node:
  "complete_node d \<Longrightarrow> format_aql_node (project_node (Some d)) = format_node_doc d"
  by (auto simp: complete_node_def format_aql_node_def project_node_def format_node_doc_def
      get_default_def)

lemma format_complete_edge:
  "complete_edge e \<Longrightarrow> format_aql_edge (project_edge e) = format_edge_doc e"
  by (auto simp: complete_edge_def format_aql_edge_def project_edge_def format_edge_doc_def
      get_default_def)

lemma fits_project_node:
  "fits_Node (format_aql_node (project_node (Some d))) \<longleftrightarrow> complete_node d"
  by (simp add: fits_Node_def complete_node_def format_aql_node_def project_node_def)

text \<open>
  Whenever the expansion returns a graph, its first node is the start node, as
  \<open>get_node\<close> returns it.
\<close>

lemma expand_start_first:
  assumes "get_node_neighbors db node_id (Some depth) = Inr g"
  shows "\<exists>doc. collection_get (nodes db) node_id = Some doc \<and> complete_node doc
           \<and> g_nodes g \<noteq> [] \<and> hd (g_nodes g) = format_node_doc doc
           \<and> r_id (hd (g_nodes g)) = Some node_id
           \<and> get_node db node_id = Inr (hd (g_nodes g))"
proof -
  note r = neighbors_Inr [OF assms]
  from r(1) obtain doc where doc: "collection_get (nodes db) node_id = Some doc"
    by (auto simp: collection_has_def)
  then have k: "n_key doc = node_id" by (rule collection_get_key)
  have d: "document db (''nodes/'' @ node_id) = Some doc"
    unfolding document_start by (rule doc)
  have ns: "g_nodes g = format_aql_node (project_node (Some doc)) #
      map format_aql_node (return_distinct (map (\<lambda>n. project_node (document db (fst n)))
        (traversal (edges db) (nat depth) (''nodes/'' @ node_id) [])))"
    unfolding r(4) using d by (simp add: neighbors_query_nodes del: traversal.simps)
  from r(5) have "fits_Node (format_aql_node (project_node (Some doc)))"
    unfolding ns by simp
  then have c: "complete_node doc" by (simp only: fits_project_node)
  then have f: "format_aql_node (project_node (Some doc)) = format_node_doc doc"
    by (rule format_complete_node)
  have hd: "hd (g_nodes g) = format_node_doc doc" unfolding ns f by simp
  have ne: "g_nodes g \<noteq> []" unfolding ns by simp
  have i: "r_id (hd (g_nodes g)) = Some node_id"
    unfolding hd by (simp add: format_node_doc_def k)
  have gn: "get_node db node_id = Inr (hd (g_nodes g))"
    unfolding hd by (simp add: get_node_def doc)
  from doc c ne hd i gn show ?thesis by blast
qed

text \<open>
  A start node that has every attribute and no incident edge is returned alone, with no
  edges, for every depth in [1, 3].
\<close>

lemma expand_isolated_complete:
  assumes "collection_get (nodes db) node_id = Some doc" and "complete_node doc"
    and "1 \<le> depth" and "depth \<le> 3"
    and "\<forall>e\<in>set (edges db). e_from e \<noteq> ''nodes/'' @ node_id \<and> e_to e \<noteq> ''nodes/'' @ node_id"
  shows "get_node_neighbors db node_id (Some depth) =
           Inr \<lparr>g_nodes = [format_node_doc doc], g_edges = []\<rparr>"
proof -
  let ?h = "''nodes/'' @ node_id"
  from assms(1) have has: "collection_has (nodes db) node_id"
    by (simp add: collection_has_def)
  from assms(5) have "any_edges (edges db) ?h [] = []" by (rule any_edges_isolated)
  then have t: "traversal (edges db) (nat depth) ?h [] = []" by (rule traversal_no_edges)
  have d: "document db ?h = Some doc"
    unfolding document_start by (rule assms(1))
  have n: "fst (neighbors_query db ?h (nat depth)) = [project_node (Some doc)]"
    unfolding neighbors_query_nodes t d by simp
  have e: "snd (neighbors_query db ?h (nat depth)) = []"
    unfolding neighbors_query_edges t by simp
  from has assms(3,4) have "get_node_neighbors db node_id (Some depth) =
      response_model_Graph
        \<lparr>g_nodes = map format_aql_node (fst (neighbors_query db ?h (nat depth))),
         g_edges = map format_aql_edge (snd (neighbors_query db ?h (nat depth)))\<rparr>"
    by (intro neighbors_found) simp_all
  then have "get_node_neighbors db node_id (Some depth) =
      response_model_Graph \<lparr>g_nodes = [format_node_doc doc], g_edges = []\<rparr>"
    unfolding n e by (simp add: format_complete_node [OF assms(2)])
  then show ?thesis
    by (simp add: response_model_Graph_def format_doc_fits)
qed

text \<open>
  A start node that lacks an attribute makes the route fail for every depth in [1, 3],
  whatever else the store holds.
\<close>

lemma expand_incomplete_start_fails:
  assumes "collection_get (nodes db) node_id = Some doc" and "\<not> complete_node doc"
    and "1 \<le> depth" and "depth \<le> 3"
  shows "get_node_neighbors db node_id (Some depth) = Inl ResponseValidationError"
proof -
  let ?h = "''nodes/'' @ node_id"
  from assms(1) have has: "collection_has (nodes db) node_id"
    by (simp add: collection_has_def)
  have d: "document db ?h = Some doc"
    unfolding document_start by (rule assms(1))
  from assms(2) have "\<not> fits_Node (format_aql_node (project_node (Some doc)))"
    by (simp add: fits_project_node)
  then have nf: "\<not> list_all fits_Node (map format_aql_node (fst (neighbors_query db ?h (nat depth))))"
    unfolding neighbors_query_nodes d by simp
  from has assms(3,4) have "get_node_neighbors db node_id (Some depth) =
      response_model_Graph
        \<lparr>g_nodes = map format_aql_node (fst (neighbors_query db ?h (nat depth))),
         g_edges = map format_aql_edge (snd (neighbors_query db ?h (nat depth)))\<rparr>"
    by (intro neighbors_found) simp_all
  with nf show ?thesis
    by (simp add: response_model_Graph_def)
qed

text \<open>
  C5. The claim fails on a node created with its required fields only. The stored
  document has no \<^verbatim>\<open>properties\<close>; \<open>get_node\<close> returns the node with the empty map, but in
  the expansion the query's object carries \<^verbatim>\<open>properties: null\<close>, the default of
  \<^verbatim>\<open>node.get("properties", {})\<close> is not taken, the entry does not fit \<^verbatim>\<open>Node\<close> and the
  route answers with status 500: no graph, hence no start node, is returned.
\<close>

theorem expand_bare_start_fails:
  "collection_has (nodes bare_store) ''0''
   \<and> edges bare_store = []
   \<and> get_node bare_store ''0'' =
       Inr \<lparr>r_id = Some ''0'', r_label = Some ''A'', r_type = Some ''page'',
            r_properties = Some []\<rparr>
   \<and> map format_aql_node (fst (neighbors_query bare_store ''nodes/0'' 1)) =
       [\<lparr>r_id = Some ''0'', r_label = Some ''A'', r_type = Some ''page'',
         r_properties = None\<rparr>]
   \<and> get_node_neighbors bare_store ''0'' (Some 1) = Inl ResponseValidationError
   \<and> get_node_neighbors bare_store ''0'' (Some 2) = Inl ResponseValidationError
   \<and> get_node_neighbors bare_store ''0'' (Some 3) = Inl ResponseValidationError
   \<and> status_code ResponseValidationError = 500"
  by code_simp

section \<open>Neighbourhood expansion: the scenario A\<rightarrow>B\<rightarrow>C\<close>

text \<open>
  Any store that holds exactly three nodes A, B, C and exactly the edges A\<rightarrow>B and B\<rightarrow>C,
  all of them with every attribute (any keys, labels, types and properties): expanding A
  to depth 1 returns A, B and the edge A\<rightarrow>B; to depth 2 it returns A, B, C and both
  edges; expanding C to depth 1 returns C and B through the edge B\<rightarrow>C, followed against
  its direction.
\<close>

lemma abc_expansion_complete:
  assumes n: "nodes db = [A, B, C]" and e: "edges db = [ab, bc]"
    and k: "n_key A \<noteq> n_key B" "n_key A \<noteq> n_key C" "n_key B \<noteq> n_key C"
    and ek: "e_key ab \<noteq> e_key bc"
    and ab: "e_from ab = ''nodes/'' @ n_key A" "e_to ab = ''nodes/'' @ n_key B"
    and bc: "e_from bc = ''nodes/'' @ n_key B" "e_to bc = ''nodes/'' @ n_key C"
    and c: "complete_node A" "complete_node B" "complete_node C"
      "complete_edge ab" "complete_edge bc"
  shows "get_node_neighbors db (n_key A) (Some 1) =
           Inr \<lparr>g_nodes = [format_node_doc A, format_node_doc B],
                g_edges = [format_edge_doc ab]\<rparr>"
    and "get_node_neighbors db (n_key A) (Some 2) =
           Inr \<lparr>g_nodes = [format_node_doc A, format_node_doc B, format_node_doc C],
                g_edges = [format_edge_doc ab, format_edge_doc bc]\<rparr>"
    and "get_node_neighbors db (n_key C) (Some 1) =
           Inr \<lparr>g_nodes = [format_node_doc C, format_node_doc B],
                g_edges = [format_edge_doc bc]\<rparr>"
proof -
  let ?a = "''nodes/'' @ n_key A" and ?b = "''nodes/'' @ n_key B" and ?c = "''nodes/'' @ n_key C"
  have dA: "document db ?a = Some A" and dB: "document db ?b = Some B"
    and dC: "document db ?c = Some C"
    using k by (simp_all add: document_def collection_get_def n)
  note d = dA [simplified] dB [simplified] dC [simplified]
  have hA: "collection_has (nodes db) (n_key A)" and hC: "collection_has (nodes db) (n_key C)"
    using k by (simp_all add: collection_has_def collection_get_def n)
  have a0: "any_edges [ab, bc] ?a [] = [(?b, ab)]"
    using k by (simp add: any_edges_def ab bc)
  have b1: "any_edges [ab, bc] ?b [e_key ab] = [(?c, bc)]"
    using k ek by (auto simp: any_edges_def ab bc)
  have c2: "any_edges [ab, bc] ?c [e_key bc, e_key ab] = []"
    by (simp add: any_edges_def)
  have c0: "any_edges [ab, bc] ?c [] = [(?b, bc)]"
    using k by (simp add: any_edges_def ab bc)
  have t1: "traversal [ab, bc] (Suc 0) ?a [] = [(?b, ab)]"
    unfolding traversal.simps a0 by simp
  have t1b: "traversal [ab, bc] (Suc 0) ?b [e_key ab] = [(?c, bc)]"
    unfolding traversal.simps b1 by simp
  have t2: "traversal [ab, bc] (Suc (Suc 0)) ?a [] = [(?b, ab), (?c, bc)]"
    unfolding traversal.simps(2) [of _ "Suc 0"] a0 using t1b by simp
  have t1c: "traversal [ab, bc] (Suc 0) ?c [] = [(?b, bc)]"
    unfolding traversal.simps c0 by simp
  have pn: "project_node (Some B) \<noteq> project_node (Some C)"
    using k by (simp add: project_node_def)
  have pe: "project_edge ab \<noteq> project_edge bc"
    using ek by (simp add: project_edge_def)
  have q1: "neighbors_query db ?a (Suc 0) =
              ([project_node (Some A), project_node (Some B)], [project_edge ab])"
    unfolding neighbors_query_def e t1 Let_def by (simp add: d)
  have q2: "neighbors_query db ?a (Suc (Suc 0)) =
              ([project_node (Some A), project_node (Some B), project_node (Some C)],
               [project_edge ab, project_edge bc])"
    unfolding neighbors_query_def e t2 Let_def using pn pe by (simp add: d)
  have q3: "neighbors_query db ?c (Suc 0) =
              ([project_node (Some C), project_node (Some B)], [project_edge bc])"
    unfolding neighbors_query_def e t1c Let_def by (simp add: d)
  note f = format_complete_node [OF c(1)] format_complete_node [OF c(2)]
    format_complete_node [OF c(3)] format_complete_edge [OF c(4)] format_complete_edge [OF c(5)]
  have n1: "nat 1 = Suc 0" and n2: "nat 2 = Suc (Suc 0)"
    by simp_all
  have "get_node_neighbors db (n_key A) (Some 1) =
      response_model_Graph
        \<lparr>g_nodes = map format_aql_node (fst (neighbors_query db ?a (nat 1))),
         g_edges = map format_aql_edge (snd (neighbors_query db ?a (nat 1)))\<rparr>"
    using hA by (intro neighbors_found) simp_all
  then show "get_node_neighbors db (n_key A) (Some 1) =
           Inr \<lparr>g_nodes = [format_node_doc A, format_node_doc B],
                g_edges = [format_edge_doc ab]\<rparr>"
    unfolding n1 q1 by (simp add: f response_model_Graph_def format_doc_fits)
  have "get_node_neighbors db (n_key A) (Some 2) =
      response_model_Graph
        \<lparr>g_nodes = map format_aql_node (fst (neighbors_query db ?a (nat 2))),
         g_edges = map format_aql_edge (snd (neighbors_query db ?a (nat 2)))\<rparr>"
    using hA by (intro neighbors_found) simp_all
  then show "get_node_neighbors db (n_key A) (Some 2) =
           Inr \<lparr>g_nodes = [format_node_doc A, format_node_doc B, format_node_doc C],
                g_edges = [format_edge_doc ab, format_edge_doc bc]\<rparr>"
    unfolding n2 q2 by (simp add: f response_model_Graph_def format_doc_fits)
  have "get_node_neighbors db (n_key C) (Some 1) =
      response_model_Graph
        \<lparr>g_nodes = map format_aql_node (fst (neighbors_query db ?c (nat 1))),
         g_edges = map format_aql_edge (snd (neighbors_query db ?c (nat 1)))\<rparr>"
    using hC by (intro neighbors_found) simp_all
  then show "get_node_neighbors db (n_key C) (Some 1) =
           Inr \<lparr>g_nodes = [format_node_doc C, format_node_doc B],
                g_edges = [format_edge_doc bc]\<rparr>"
    unfolding n1 q3 by (simp add: f response_model_Graph_def format_doc_fits)
qed

text \<open>
  The three pages and two edges created through the routes with their properties
  supplied.
\<close>

lemma abc_store_expansion:
  "map n_key (nodes abc_store) = [''0'', ''1'', ''2'']
   \<and> map (\<lambda>e. (e_key e, e_from e, e_to e, e_label e)) (edges abc_store) =
       [(''3'', ''nodes/0'', ''nodes/1'', Some ''LINKS''),
        (''4'', ''nodes/1'', ''nodes/2'', Some ''LINKS'')]
   \<and> get_node_neighbors abc_store ''0'' (Some 1) =
       Inr \<lparr>g_nodes =
              [\<lparr>r_id = Some ''0'', r_label = Some ''A'', r_type = Some ''page'',
                r_properties = Some [(''name'', JStr ''A'')]\<rparr>,
               \<lparr>r_id = Some ''1'', r_label = Some ''B'', r_type = Some ''page'',
                r_properties = Some [(''name'', JStr ''B'')]\<rparr>],
            g_edges =
              [\<lparr>re_id = ''3'', re_from_node = ''nodes/0'', re_to_node = ''nodes/1'',
                re_label = Some ''LINKS'', re_properties = Some []\<rparr>]\<rparr>
   \<and> get_node_neighbors abc_store ''0'' (Some 2) =
       Inr \<lparr>g_nodes =
              [\<lparr>r_id = Some ''0'', r_label = Some ''A'', r_type = Some ''page'',
                r_properties = Some [(''name'', JStr ''A'')]\<rparr>,
               \<lparr>r_id = Some ''1'', r_label = Some ''B'', r_type = Some ''page'',
                r_properties = Some [(''name'', JStr ''B'')]\<rparr>,
               \<lparr>r_id = Some ''2'', r_label = Some ''C'', r_type = Some ''page'',
                r_properties = Some [(''name'', JStr ''C'')]\<rparr>],
            g_edges =
              [\<lparr>re_id = ''3'', re_from_node = ''nodes/0'', re_to_node = ''nodes/1'',
                re_label = Some ''LINKS'', re_properties = Some []\<rparr>,
               \<lparr>re_id = ''4'', re_from_node = ''nodes/1'', re_to_node = ''nodes/2'',
                re_label = Some ''LINKS'', re_properties = Some []\<rparr>]\<rparr>
   \<and> get_node_neighbors abc_store ''2'' (Some 1) =
       Inr \<lparr>g_nodes =
              [\<lparr>r_id = Some ''2'', r_label = Some ''C'', r_type = Some ''page'',
                r_properties = Some [(''name'', JStr ''C'')]\<rparr>,
               \<lparr>r_id = Some ''1'', r_label = Some ''B'', r_type = Some ''page'',
                r_properties = Some [(''name'', JStr ''B'')]\<rparr>],
            g_edges =
              [\<lparr>re_id = ''4'', re_from_node = ''nodes/1'', re_to_node = ''nodes/2'',
                re_label = Some ''LINKS'', re_properties = Some []\<rparr>]\<rparr>"
  by code_simp

text \<open>
  C7. The claim fails on the scenario created with the required fields only (nodes with
  label and type, edges with endpoints and the label LINKS). The query reaches the
  vertices and edges the claim names, A, B over A\<rightarrow>B at depth 1 and A, B, C over both
  edges at depth 2, but none of the stored documents has \<^verbatim>\<open>properties\<close>, the objects
  carry \<^verbatim>\<open>properties: null\<close>, and the route answers with status 500 at either depth.
\<close>

theorem abc_required_fields_only_fails:
  "map (\<lambda>d. (n_key d, n_label d, n_type d, n_properties d)) (nodes plain_abc_store) =
       [(''0'', Some ''A'', Some ''page'', None), (''1'', Some ''B'', Some ''page'', None),
        (''2'', Some ''C'', Some ''page'', None)]
   \<and> map (\<lambda>e. (e_key e, e_from e, e_to e, e_label e, e_properties e)) (edges plain_abc_store) =
       [(''3'', ''nodes/0'', ''nodes/1'', Some ''LINKS'', None),
        (''4'', ''nodes/1'', ''nodes/2'', Some ''LINKS'', None)]
   \<and> map a_key (fst (neighbors_query plain_abc_store ''nodes/0'' 1)) = [Some ''0'', Some ''1'']
   \<and> map ae_key (snd (neighbors_query plain_abc_store ''nodes/0'' 1)) = [''3'']
   \<and> map a_key (fst (neighbors_query plain_abc_store ''nodes/0'' 2)) =
       [Some ''0'', Some ''1'', Some ''2'']
   \<and> map ae_key (snd (neighbors_query plain_abc_store ''nodes/0'' 2)) = [''3'', ''4'']
   \<and> get_node_neighbors plain_abc_store ''0'' (Some 1) = Inl ResponseValidationError
   \<and> get_node_neighbors plain_abc_store ''0'' (Some 2) = Inl ResponseValidationError
   \<and> status_code ResponseValidationError = 500"
  by code_simp

section \<open>Neighbourhood expansion: duplicates\<close>

text \<open>
  The vertices the traversal reached are listed once each: \<^verbatim>\<open>RETURN DISTINCT\<close> removes
  repeated objects, and two objects with one key come from one document. This covers
  every entry of the result but the first, the start node.
\<close>

lemma document_key:
  assumes "document db h = Some d"
  shows "collection_get (nodes db) (n_key d) = Some d"
proof -
  from assms have g: "collection_get (nodes db) (drop 6 h) = Some d"
    by (simp add: document_def split: if_splits)
  then have "n_key d = drop 6 h" by (rule collection_get_key)
  with g show ?thesis by simp
qed

lemma project_key_inj:
  assumes "a_key (project_node v) = a_key (project_node v')"
    and "\<And>d. v = Some d \<Longrightarrow> collection_get ds (n_key d) = Some d"
    and "\<And>d. v' = Some d \<Longrightarrow> collection_get ds (n_key d) = Some d"
  shows "project_node v = project_node v'"
proof (cases v)
  case None
  with assms(1) show ?thesis
    by (cases v') (simp_all add: project_node_def)
next
  case (Some d)
  with assms(1) obtain d' where d': "v' = Some d'" and k: "n_key d = n_key d'"
    by (cases v') (simp_all add: project_node_def)
  have "Some d = collection_get ds (n_key d)"
    using assms(2) [OF Some] by (rule sym)
  also have "\<dots> = collection_get ds (n_key d')"
    unfolding k ..
  also have "\<dots> = Some d'"
    by (rule assms(3) [OF d'])
  finally have "d = d'" by (simp only: option.inject)
  with Some d' show ?thesis by simp
qed

lemma reached_keys_distinct:
  "distinct (map a_key (return_distinct (map (\<lambda>n. project_node (document db (fst n))) ps)))"
proof -
  let ?f = "\<lambda>n. project_node (document db (fst n))"
  have "inj_on a_key (set (map ?f ps))"
  proof (rule inj_onI)
    fix x y
    assume x: "x \<in> set (map ?f ps)" and y: "y \<in> set (map ?f ps)" and k: "a_key x = a_key y"
    from x have "x \<in> ?f ` set ps" by (simp only: set_map)
    then obtain p where p: "x = project_node (document db (fst p))"
      by auto
    from y have "y \<in> ?f ` set ps" by (simp only: set_map)
    then obtain q where q: "y = project_node (document db (fst q))"
      by auto
    from k have "a_key (project_node (document db (fst p))) = a_key (project_node (document db (fst q)))"
      unfolding p q .
    then have "project_node (document db (fst p)) = project_node (document db (fst q))"
      by (rule project_key_inj [where ds = "nodes db"]) (erule document_key)+
    then show "x = y" unfolding p q .
  qed
  then have "inj_on a_key (set (return_distinct (map ?f ps)))"
    unfolding set_return_distinct .
  with distinct_return_distinct [of "map ?f ps"] show ?thesis
    unfolding distinct_map by (rule conjI)
qed

lemma expand_reached_distinct:
  assumes "get_node_neighbors db node_id depth = Inr g"
  shows "distinct (map r_id (tl (g_nodes g)))"
proof -
  from assms obtain d where g: "g = \<lparr>g_nodes = map format_aql_node (fst (neighbors_query db (''nodes/'' @ node_id) d)),
          g_edges = map format_aql_edge (snd (neighbors_query db (''nodes/'' @ node_id) d))\<rparr>"
    unfolding get_node_neighbors_def Let_def
    by (cases "Query 1 0 3 depth"; cases "collection_has (nodes db) node_id")
      (auto simp: response_model_Graph_Inr)
  have r: "map r_id (map format_aql_node xs) = map a_key xs" for xs
    by (induction xs) (simp_all add: format_aql_node_def)
  have "tl (g_nodes g) = map format_aql_node (return_distinct
      (map (\<lambda>n. project_node (document db (fst n)))
        (traversal (edges db) d (''nodes/'' @ node_id) [])))"
    unfolding g by (simp add: neighbors_query_def Let_def del: traversal.simps)
  then show ?thesis
    by (simp only: r reached_keys_distinct)
qed

text \<open>
  C1. The start node itself is not covered. With two pages and an edge each way, the path
  0 \<rightarrow> 1 \<rightarrow> 0 has two different edges, so the traversal to depth 2 reaches the start
  vertex again; \<^verbatim>\<open>APPEND\<close> puts the start node in front of the distinct reached
  vertices without comparing, and the result lists node 0 twice.
\<close>

theorem expand_cycle_repeats_start:
  "map n_key (nodes cycle_store) = [''0'', ''1'']
   \<and> map (\<lambda>e. (e_key e, e_from e, e_to e)) (edges cycle_store) =
       [(''2'', ''nodes/0'', ''nodes/1''), (''3'', ''nodes/1'', ''nodes/0'')]
   \<and> get_node_neighbors cycle_store ''0'' (Some 2) =
       Inr \<lparr>g_nodes =
              [\<lparr>r_id = Some ''0'', r_label = Some ''A'', r_type = Some ''page'',
                r_properties = Some [(''name'', JStr ''A'')]\<rparr>,
               \<lparr>r_id = Some ''1'', r_label = Some ''B'', r_type = Some ''page'',
                r_properties = Some [(''name'', JStr ''B'')]\<rparr>,
               \<lparr>r_id = Some ''0'', r_label = Some ''A'', r_type = Some ''page'',
                r_properties = Some [(''name'', JStr ''A'')]\<rparr>],
            g_edges =
              [\<lparr>re_id = ''2'', re_from_node = ''nodes/0'', re_to_node = ''nodes/1'',
                re_label = Some ''LINKS'', re_properties = Some []\<rparr>,
               \<lparr>re_id = ''3'', re_from_node = ''nodes/1'', re_to_node = ''nodes/0'',
                re_label = Some ''LINKS'', re_properties = Some []\<rparr>]\<rparr>"
  by code_simp

end
